theory Spec2Isabelle
  imports Complex_Main
begin

section \<open>Strings\<close>

text \<open>
  Identifiers, comments, keywords and URLs are Python \<open>str\<close> values; they are modelled as
  \<open>string\<close> (a list of 8-bit characters; a character outside ASCII stands as its UTF-8
  bytes). \<open>str.lower()\<close> is modelled on the ASCII letters and leaves every other
  character as it is, which is what it does on the characters the URL pattern of the
  plugin lists (\<open>[-a-zA-Z0-9@:%._+~#=/?&]\<close>) and on uncased scripts; cased letters
  outside ASCII are outside the model.
\<close>

definition lower_char :: "char \<Rightarrow> char" where
  "lower_char c =
     (case map_of (zip ''ABCDEFGHIJKLMNOPQRSTUVWXYZ'' ''abcdefghijklmnopqrstuvwxyz'') c of
        None \<Rightarrow> c | Some d \<Rightarrow> d)"

definition lower :: "string \<Rightarrow> string" where
  "lower s = map lower_char s"

text \<open>\<open>s.startswith(p)\<close> and \<open>s.endswith(p)\<close>.\<close>

definition startswith :: "string \<Rightarrow> string \<Rightarrow> bool" where
  "startswith s p = (take (length p) s = p)"


text \<open>\<open>sub in s\<close> on strings: \<open>sub\<close> occurs in \<open>s\<close> as a contiguous run.\<close>

fun str_in :: "string \<Rightarrow> string \<Rightarrow> bool" where
  "str_in sub [] = (sub = [])"
| "str_in sub (c # cs) = (startswith (c # cs) sub \<or> str_in sub cs)"

section \<open>LinkGuard: \<open>BanproHandle._is_url_whitelisted\<close>\<close>












section \<open>SettingsStore\<close>

text \<open>
  Modelled from the spec: the class \<open>QQAdminDB\<close> (module \<open>..data\<close>) is not among the
  sources. The specification describes it as a key/value accessor scoped by group with
  \<open>Get(group, key, default)\<close> and \<open>Set(group, key, value)\<close>. Only the integer-valued keys
  \<open>word_ban_time\<close> and \<open>spamming_ban_time\<close> are read by the functions modelled here.
\<close>

type_synonym settings_db = "string \<Rightarrow> string \<rightharpoonup> int"

text \<open>Modelled from the spec: \<open>db.get(gid, key, default)\<close>.\<close>

definition db_get :: "settings_db \<Rightarrow> string \<Rightarrow> string \<Rightarrow> int \<Rightarrow> int" where
  "db_get db gid key dflt = (case db gid key of None \<Rightarrow> dflt | Some v \<Rightarrow> v)"

text \<open>Modelled from the spec: \<open>db.set(gid, key, value)\<close>.\<close>

definition db_set :: "settings_db \<Rightarrow> string \<Rightarrow> string \<Rightarrow> int \<Rightarrow> settings_db" where
  "db_set db gid key v = db(gid := (db gid)(key \<mapsto> v))"

section \<open>Flood detector: \<open>BanproHandle.spamming_ban\<close>\<close>

text \<open>
  \<open>time.time()\<close> returns a float; timestamps are modelled as exact reals and the clock
  reading is an argument of the handler. The two nested \<open>defaultdict\<close>s are total functions
  with the default values \<open>deque()\<close> and \<open>0.0\<close>.
\<close>

definition spamming_count :: nat where
  "spamming_count = 5"

definition spamming_interval :: real where
  "spamming_interval = 1 / 2"

record flood_state =
  msg_timestamps :: "string \<Rightarrow> string \<Rightarrow> real list"
  last_banned_time :: "string \<Rightarrow> string \<Rightarrow> real"

definition flood_init :: flood_state where
  "flood_init = \<lparr>msg_timestamps = (\<lambda>g u. []), last_banned_time = (\<lambda>g u. 0)\<rparr>"

text \<open>\<open>deque(maxlen=spamming_count).append(x)\<close>: the oldest entry is dropped when the deque is full.\<close>

definition deque_append :: "real list \<Rightarrow> real \<Rightarrow> real list" where
  "deque_append dq x = (let ys = dq @ [x] in drop (length ys - spamming_count) ys)"

text \<open>What the handler reads of the event: group, sender, the bot's own id and
  \<open>len(event.get_messages())\<close>.\<close>

record message_event =
  group_id :: string
  sender_id :: string
  self_id :: string
  n_messages :: nat

text \<open>\<open>[recent[i + 1] - recent[i] for i in range(count - 1)]\<close>\<close>

definition intervals :: "real list \<Rightarrow> real list" where
  "intervals recent = map (\<lambda>i. recent ! (i + 1) - recent ! i) [0 ..< spamming_count - 1]"

definition set_timestamps :: "flood_state \<Rightarrow> string \<Rightarrow> string \<Rightarrow> real list \<Rightarrow> flood_state" where
  "set_timestamps st g u ts =
     st\<lparr>msg_timestamps := (msg_timestamps st)(g := (msg_timestamps st g)(u := ts))\<rparr>"

definition set_last_banned :: "flood_state \<Rightarrow> string \<Rightarrow> string \<Rightarrow> real \<Rightarrow> flood_state" where
  "set_last_banned st g u t =
     st\<lparr>last_banned_time := (last_banned_time st)(g := (last_banned_time st g)(u := t))\<rparr>"

text \<open>
  The handler returns \<open>Some ban_time\<close> when it reaches the flood branch (it sets the ban
  mark and calls \<open>set_group_ban\<close> with that duration) and \<open>None\<close> otherwise. Whatever the
  \<open>try\<close> block does, a raise inside it is caught and \<open>timestamps.clear()\<close> runs after it.
\<close>

definition spamming_ban ::
  "settings_db \<Rightarrow> message_event \<Rightarrow> real \<Rightarrow> flood_state \<Rightarrow> int option \<times> flood_state" where
  "spamming_ban db ev now st =
     (let gid = group_id ev; sid = sender_id ev;
          ban_time = db_get db gid ''spamming_ban_time'' 0 in
      if sid = self_id ev \<or> ban_time \<le> 0 \<or> n_messages ev = 0 then (None, st)
      else
        let last_time = last_banned_time st gid sid in
        if now - last_time < real_of_int ban_time then (None, st)
        else
          let timestamps = deque_append (msg_timestamps st gid sid) now;
              st1 = set_timestamps st gid sid timestamps in
          if spamming_count \<le> length timestamps then
            let recent = drop (length timestamps - spamming_count) timestamps in
            if list_all (\<lambda>interval. interval < spamming_interval) (intervals recent)
            then (Some ban_time, set_timestamps (set_last_banned st1 gid sid now) gid sid [])
            else (None, st1)
          else (None, st1))"

text \<open>A sequence of message events of one sender, observed one after the other.\<close>

fun observe_many ::
  "settings_db \<Rightarrow> message_event \<Rightarrow> real list \<Rightarrow> flood_state \<Rightarrow> int option list \<times> flood_state" where
  "observe_many db ev [] st = ([], st)"
| "observe_many db ev (t # ts) st =
     (let (r, st1) = spamming_ban db ev t st;
          (rs, st2) = observe_many db ev ts st1
      in (r # rs, st2))"

text \<open>
  The specification's trigger condition on a window of recorded timestamps: it holds at
  least \<open>spamming_count\<close> entries and every consecutive gap among the last
  \<open>spamming_count\<close> of them is strictly below \<open>spamming_interval\<close>.
\<close>

definition spec_flood_run :: "real list \<Rightarrow> bool" where
  "spec_flood_run w =
     (spamming_count \<le> length w \<and>
      (let r = drop (length w - spamming_count) w in
       \<forall>i. Suc i < length r \<longrightarrow> r ! Suc i - r ! i < spamming_interval))"

text \<open>\<open>handle_spamming_ban_time\<close> (lines 150-165) and the reply it sends.\<close>

datatype ban_time_reply = BanTimeSet int | BanClosed | BanTimeIs int

definition handle_spamming_ban_time ::
  "settings_db \<Rightarrow> string \<Rightarrow> int option \<Rightarrow> settings_db \<times> ban_time_reply" where
  "handle_spamming_ban_time db gid time =
     (case time of
        Some t \<Rightarrow> (db_set db gid ''word_ban_time'' t, if t > 0 then BanTimeSet t else BanClosed)
      | None \<Rightarrow> (db, BanTimeIs (db_get db gid ''word_ban_time'' 0)))"

text \<open>The duration \<open>check_ban_words\<close> mutes for (line 136).\<close>

definition word_ban_time :: "settings_db \<Rightarrow> string \<Rightarrow> int" where
  "word_ban_time db gid = db_get db gid ''word_ban_time'' 0"

section \<open>VoteConsensus: \<open>start_vote_mute\<close>, \<open>settle_vote\<close>, \<open>vote_mute\<close>\<close>

text \<open>
  A record of \<open>vote_cache\<close>. The \<open>votes\<close> dictionary is an association list in insertion
  order; assigning to a key that is present replaces its value in place.
\<close>

record vote_record =
  target :: string
  votes :: "(string \<times> bool) list"
  ban_time :: int
  expire :: real
  threshold :: int

fun dict_set :: "string \<Rightarrow> bool \<Rightarrow> (string \<times> bool) list \<Rightarrow> (string \<times> bool) list" where
  "dict_set k v [] = [(k, v)]"
| "dict_set k v ((k', v') # kvs) =
     (if k' = k then (k, v) # kvs else (k', v') # dict_set k v kvs)"

text \<open>\<open>conf["vote_ban"]\<close>: the fields \<open>ttl\<close> and \<open>threshold\<close> of \<open>VoteBanConfig\<close>.\<close>

record vote_ban_conf =
  conf_ttl :: int
  conf_threshold :: int

text \<open>
  The engine state of the vote: \<open>vote_cache\<close>, and the \<open>settle_vote\<close> tasks that were
  created with \<open>asyncio.create_task\<close> and have not run past their sleep yet, each with the
  group id its closure captured and the time its sleep ends (the expiry written into the
  record, up to the delay of the two awaits that precede the creation of the task). Each
  handler is taken to run to completion before the next one starts.
\<close>

record vote_state =
  vote_cache :: "string \<rightharpoonup> vote_record"
  pending :: "(string \<times> real) list"

text \<open>
  What a handler does to the outside: a call of \<open>set_group_ban(group, user, duration)\<close>
  that returned, a message that was sent (the nickname shown in a message is looked up from
  the target id, which the message carries here), a line written with \<open>logger.error\<close> by an
  \<open>except\<close> clause, and the end of the handler by an exception that nothing catches.
\<close>

datatype vote_message =
    VoteAlreadyActive
  | VoteStarted string int int
  | NoActiveVote
  | VotePassed string
  | VoteRejected string
  | VoteProgress string int int int
  | TimeUpBanned string
  | TimeUpRejected string

datatype effect =
    SetGroupBan string string int
  | Send vote_message
  | LogError
  | Raises

fun is_ban :: "effect \<Rightarrow> bool" where
  "is_ban (SetGroupBan g u d) = True"
| "is_ban (Send m) = False"
| "is_ban LogError = False"
| "is_ban Raises = False"

text \<open>\<open>agree_count = sum(votes)\<close> and \<open>disagree_count = len(votes) - agree_count\<close>.\<close>

definition agree_count :: "(string \<times> bool) list \<Rightarrow> int" where
  "agree_count vs = int (length (filter (\<lambda>v. v) (map snd vs)))"

definition disagree_count :: "(string \<times> bool) list \<Rightarrow> int" where
  "disagree_count vs = int (length (map snd vs)) - agree_count vs"

text \<open>
  What the statements of a \<open>try\<close> block around \<open>set_group_ban\<close> do, in their order:
  \<open>int(group_id)\<close> or \<open>int(target)\<close> raises before any call is made; the call of
  \<open>set_group_ban\<close> raises; the call returns and the \<open>event.send\<close> after it raises; or all
  of them return. Every raise is caught by the \<open>except\<close> clause, which logs an error.
\<close>

datatype try_result = IntRaises | BanRaises | SendRaises | TryOk

fun try_ban :: "try_result \<Rightarrow> string \<Rightarrow> string \<Rightarrow> int \<Rightarrow> vote_message \<Rightarrow> effect list" where
  "try_ban IntRaises gid uid duration msg = [LogError]"
| "try_ban BanRaises gid uid duration msg = [LogError]"
| "try_ban SendRaises gid uid duration msg = [SetGroupBan gid uid duration, LogError]"
| "try_ban TryOk gid uid duration msg = [SetGroupBan gid uid duration, Send msg]"

text \<open>
  The behaviour of the external calls during one run of a handler: whether
  \<open>get_nickname\<close> returns, what the \<open>try\<close> block does, and whether an \<open>event.send\<close> that
  stands outside any \<open>try\<close> returns.
\<close>

record external =
  nickname_returns :: bool
  try_block :: try_result
  send_returns :: bool

text \<open>
  \<open>start_vote_mute\<close> (lines 209-274) up to the creation of the settlement task.
  \<open>target_ids\<close> is \<open>get_ats(event)\<close>, \<open>ban_time_arg\<close> the optional argument and \<open>rnd\<close> the
  value \<open>random.randint\<close> returns when it is called. The awaits of this handler and of
  \<open>vote_mute\<close> that stand outside a \<open>try\<close> are taken to return.
\<close>

definition start_vote_mute ::
  "vote_ban_conf \<Rightarrow> real \<Rightarrow> string \<Rightarrow> string list \<Rightarrow> int option \<Rightarrow> int \<Rightarrow> vote_state
   \<Rightarrow> effect list \<times> vote_state" where
  "start_vote_mute conf now gid target_ids ban_time_arg rnd st =
     (case target_ids of
        [] \<Rightarrow> ([], st)
      | target_id # _ \<Rightarrow>
          let bt = (case ban_time_arg of
                      None \<Rightarrow> rnd
                    | Some b \<Rightarrow> if b = 0 then rnd else b) in
          if vote_cache st gid \<noteq> None then ([Send VoteAlreadyActive], st)
          else
            let expire_at = now + real_of_int (conf_ttl conf);
                new_record = \<lparr>target = target_id, votes = [], ban_time = bt,
                              expire = expire_at, threshold = conf_threshold conf\<rparr>
            in ([Send (VoteStarted target_id bt (conf_ttl conf))],
                st\<lparr>vote_cache := (vote_cache st)(gid \<mapsto> new_record),
                   pending := pending st @ [(gid, expire_at)]\<rparr>))"

text \<open>
  The body of \<open>settle_vote\<close> after its sleep (lines 246-272). \<open>get_nickname\<close> (line 252)
  and the \<open>event.send\<close> of the rejection (line 268) are awaited outside any \<open>try\<close>: when
  one of them raises, the task ends there and \<open>del self.vote_cache[group_id]\<close> (line 272)
  is not reached.
\<close>

definition settle_vote :: "external \<Rightarrow> string \<Rightarrow> vote_state \<Rightarrow> effect list \<times> vote_state" where
  "settle_vote ext gid st =
     (case vote_cache st gid of
        None \<Rightarrow> ([], st)
      | Some record \<Rightarrow>
          if \<not> nickname_returns ext then ([Raises], st)
          else if agree_count (votes record) > disagree_count (votes record)
          then (try_ban (try_block ext) gid (target record) (ban_time record)
                  (TimeUpBanned (target record)),
                st\<lparr>vote_cache := (vote_cache st)(gid := None)\<rparr>)
          else if send_returns ext
          then ([Send (TimeUpRejected (target record))],
                st\<lparr>vote_cache := (vote_cache st)(gid := None)\<rparr>)
          else ([Raises], st))"

text \<open>
  \<open>vote_mute\<close> (lines 276-327). The record is deleted in the \<open>finally\<close> clause of the
  \<open>try\<close> block, whatever the block does.
\<close>

definition vote_mute ::
  "try_result \<Rightarrow> string \<Rightarrow> string \<Rightarrow> bool \<Rightarrow> vote_state \<Rightarrow> effect list \<times> vote_state" where
  "vote_mute tr gid voter_id agree st =
     (case vote_cache st gid of
        None \<Rightarrow> ([Send NoActiveVote], st)
      | Some record \<Rightarrow>
          let record1 = record\<lparr>votes := dict_set voter_id agree (votes record)\<rparr>;
              st1 = st\<lparr>vote_cache := (vote_cache st)(gid \<mapsto> record1)\<rparr>;
              freed = st1\<lparr>vote_cache := (vote_cache st1)(gid := None)\<rparr>
          in
          if agree_count (votes record1) \<ge> threshold record
          then (try_ban tr gid (target record) (ban_time record) (VotePassed (target record)),
                freed)
          else if disagree_count (votes record1) \<ge> threshold record
          then ([Send (VoteRejected (target record))], freed)
          else ([Send (VoteProgress (target record) (agree_count (votes record1))
                         (disagree_count (votes record1)) (threshold record))],
                st1))"

text \<open>
  The events of a group's vote, each handled to completion before the next: a command
  that starts a vote, a vote cast, and the end of the sleep of the pending settlement task
  at a position of \<open>pending\<close>.
\<close>

datatype vote_event =
    StartVote real string "string list" "int option" int
  | CastVote string string bool
  | TimerFires nat

definition timer_fires :: "external \<Rightarrow> nat \<Rightarrow> vote_state \<Rightarrow> effect list \<times> vote_state" where
  "timer_fires ext i st =
     (if i < length (pending st)
      then settle_vote ext (fst (pending st ! i))
             (st\<lparr>pending := take i (pending st) @ drop (Suc i) (pending st)\<rparr>)
      else ([], st))"

fun vote_step :: "vote_ban_conf \<Rightarrow> external \<Rightarrow> vote_event \<Rightarrow> vote_state \<Rightarrow> effect list \<times> vote_state" where
  "vote_step conf ext (StartVote now gid target_ids ban_time_arg rnd) st =
     start_vote_mute conf now gid target_ids ban_time_arg rnd st"
| "vote_step conf ext (CastVote gid voter_id agree) st =
     vote_mute (try_block ext) gid voter_id agree st"
| "vote_step conf ext (TimerFires i) st = timer_fires ext i st"

fun vote_run ::
  "vote_ban_conf \<Rightarrow> external \<Rightarrow> vote_event list \<Rightarrow> vote_state \<Rightarrow> effect list list \<times> vote_state" where
  "vote_run conf ext [] st = ([], st)"
| "vote_run conf ext (e # es) st =
     (let (out, st1) = vote_step conf ext e st;
          (outs, st2) = vote_run conf ext es st1
      in (out # outs, st2))"

definition vote_init :: vote_state where
  "vote_init = \<lparr>vote_cache = Map.empty, pending = []\<rparr>"

section \<open>JoinAdmissionPolicy: \<open>GroupJoinData\<close> and \<open>JoinHandle.should_approve\<close>\<close>

text \<open>
  A group's entry of \<open>GroupJoinData._cfg\<close> is a dictionary read with \<open>.get(key, default)\<close>;
  a key may be missing, so every field is optional. Writing the JSON file (\<open>save\<close>) is
  not modelled.
\<close>

record group_cfg =
  switch :: "bool option"
  accept_keywords :: "string list option"
  reject_keywords :: "string list option"
  min_level :: "int option"
  max_time :: "int option"
  block_ids :: "string list option"

text \<open>The fields of \<open>join_config\<close> that the modelled functions read.\<close>

record join_conf =
  default_switch :: bool
  default_min_level :: int
  default_max_time :: int
  no_match_reject :: bool

record join_state =
  cfg :: "string \<rightharpoonup> group_cfg"
  fail :: "string \<rightharpoonup> int"

definition default_cfg :: "join_conf \<Rightarrow> group_cfg" where
  "default_cfg jc =
     \<lparr>switch = Some (default_switch jc), accept_keywords = Some [], reject_keywords = Some [],
      min_level = Some (default_min_level jc), max_time = Some (default_max_time jc),
      block_ids = Some []\<rparr>"

definition ensure_group :: "join_conf \<Rightarrow> string \<Rightarrow> join_state \<Rightarrow> join_state" where
  "ensure_group jc gid st =
     (if cfg st gid = None then st\<lparr>cfg := (cfg st)(gid \<mapsto> default_cfg jc)\<rparr> else st)"

definition get_accept_keywords :: "join_state \<Rightarrow> string \<Rightarrow> string list" where
  "get_accept_keywords st gid =
     (case cfg st gid of None \<Rightarrow> []
      | Some c \<Rightarrow> (case accept_keywords c of None \<Rightarrow> [] | Some v \<Rightarrow> v))"

definition get_reject_keywords :: "join_state \<Rightarrow> string \<Rightarrow> string list" where
  "get_reject_keywords st gid =
     (case cfg st gid of None \<Rightarrow> []
      | Some c \<Rightarrow> (case reject_keywords c of None \<Rightarrow> [] | Some v \<Rightarrow> v))"

definition get_min_level :: "join_state \<Rightarrow> string \<Rightarrow> int" where
  "get_min_level st gid =
     (case cfg st gid of None \<Rightarrow> 0
      | Some c \<Rightarrow> (case min_level c of None \<Rightarrow> 0 | Some v \<Rightarrow> v))"

definition get_max_time :: "join_state \<Rightarrow> string \<Rightarrow> int" where
  "get_max_time st gid =
     (case cfg st gid of None \<Rightarrow> 0
      | Some c \<Rightarrow> (case max_time c of None \<Rightarrow> 0 | Some v \<Rightarrow> v))"

definition get_block_ids :: "join_state \<Rightarrow> string \<Rightarrow> string list" where
  "get_block_ids st gid =
     (case cfg st gid of None \<Rightarrow> []
      | Some c \<Rightarrow> (case block_ids c of None \<Rightarrow> [] | Some v \<Rightarrow> v))"

text \<open>\<open>set(group_id, block_ids=uids)\<close>: the group's entry is created when missing, then updated.\<close>

definition set_block_ids :: "join_conf \<Rightarrow> string \<Rightarrow> string list \<Rightarrow> join_state \<Rightarrow> join_state" where
  "set_block_ids jc gid uids st =
     (let st1 = ensure_group jc gid st in
      case cfg st1 gid of
        None \<Rightarrow> st1
      | Some c \<Rightarrow> st1\<lparr>cfg := (cfg st1)(gid \<mapsto> c\<lparr>block_ids := Some uids\<rparr>)\<rparr>)"

definition add_block_id :: "join_conf \<Rightarrow> string \<Rightarrow> string \<Rightarrow> join_state \<Rightarrow> join_state" where
  "add_block_id jc gid uid st = set_block_ids jc gid (get_block_ids st gid @ [uid]) st"

datatype reason =
    Blacklisted
  | LevelTooLow int int
  | HitRejectKeyword
  | HitAcceptKeyword
  | AttemptsExhausted int
  | NoKeywordMatched

text \<open>\<open>f"{group_id}_{user_id}"\<close> and \<open>self._fail.get(key, 0)\<close>.\<close>

definition fail_key :: "string \<Rightarrow> string \<Rightarrow> string" where
  "fail_key gid uid = gid @ ''_'' @ uid"

definition fail_count :: "join_state \<Rightarrow> string \<Rightarrow> int" where
  "fail_count st key = (case fail st key of None \<Rightarrow> 0 | Some n \<Rightarrow> n)"

text \<open>
  The two keyword tests of lines 287-298. \<open>if comment:\<close> is false for \<open>None\<close> and for the
  empty string.
\<close>

definition comment_present :: "string option \<Rightarrow> bool" where
  "comment_present comment = (case comment of None \<Rightarrow> False | Some c \<Rightarrow> c \<noteq> [])"

definition hits_reject :: "join_state \<Rightarrow> string \<Rightarrow> string \<Rightarrow> bool" where
  "hits_reject st gid c =
     list_ex (\<lambda>rk. str_in (lower rk) (lower c)) (get_reject_keywords st gid)"

definition hits_accept :: "join_state \<Rightarrow> string \<Rightarrow> string \<Rightarrow> bool" where
  "hits_accept st gid c =
     (get_accept_keywords st gid \<noteq> [] \<and>
      list_ex (\<lambda>ak. str_in (lower ak) (lower c)) (get_accept_keywords st gid))"

text \<open>Rules 5 to 7 of \<open>should_approve\<close> (lines 300-314).\<close>

definition attempts_and_default ::
  "join_conf \<Rightarrow> string \<Rightarrow> string \<Rightarrow> join_state \<Rightarrow> (bool option \<times> reason) \<times> join_state" where
  "attempts_and_default jc gid uid st =
     (let max_fail = get_max_time st gid;
          key = fail_key gid uid;
          st1 = (if max_fail > 0 then st\<lparr>fail := (fail st)(key \<mapsto> fail_count st key + 1)\<rparr> else st)
      in
      if max_fail > 0 \<and> fail_count st1 key \<ge> max_fail
      then ((Some False, AttemptsExhausted max_fail), add_block_id jc gid uid st1)
      else if no_match_reject jc then ((Some False, NoKeywordMatched), st1)
      else ((None, NoKeywordMatched), st1))"

text \<open>
  \<open>should_approve\<close> (lines 270-314). The result \<open>Some True\<close> approves, \<open>Some False\<close>
  rejects and \<open>None\<close> leaves the request to manual review.
\<close>

definition should_approve ::
  "join_conf \<Rightarrow> string \<Rightarrow> string \<Rightarrow> string option \<Rightarrow> int option \<Rightarrow> join_state
   \<Rightarrow> (bool option \<times> reason) \<times> join_state" where
  "should_approve jc gid uid comment user_level st =
     (if uid \<in> set (get_block_ids st gid) then ((Some False, Blacklisted), st)
      else
        let ml = get_min_level st gid in
        if ml > 0 \<and> user_level \<noteq> None \<and> the user_level < ml
        then ((Some False, LevelTooLow (the user_level) ml), st)
        else if comment_present comment \<and> hits_reject st gid (the comment)
        then ((Some False, HitRejectKeyword), add_block_id jc gid uid st)
        else if comment_present comment \<and> hits_accept st gid (the comment)
        then ((Some True, HitAcceptKeyword), st)
        else attempts_and_default jc gid uid st)"

text \<open>
  The decision step of \<open>event_monitoring\<close> (lines 360-366): \<open>should_approve\<close> is called and,
  when it approves, the failure counter of the user is removed.
\<close>

definition decide_request ::
  "join_conf \<Rightarrow> string \<Rightarrow> string \<Rightarrow> string option \<Rightarrow> int option \<Rightarrow> join_state
   \<Rightarrow> (bool option \<times> reason) \<times> join_state" where
  "decide_request jc gid uid comment level st =
     (let (res, st1) = should_approve jc gid uid comment level st in
      if fst res = Some True
      then (res, st1\<lparr>fail := (fail st1)(fail_key gid uid := None)\<rparr>)
      else (res, st1))"

text \<open>
  The conditions under which a request passes the rules before the failure counter: the
  level gate of lines 283-285 does not reject, and neither keyword test of lines 287-298
  fires.
\<close>

definition level_ok :: "join_state \<Rightarrow> string \<Rightarrow> int option \<Rightarrow> bool" where
  "level_ok st gid user_level =
     (\<not> (get_min_level st gid > 0 \<and> user_level \<noteq> None \<and> the user_level < get_min_level st gid))"

definition unmatched :: "join_state \<Rightarrow> string \<Rightarrow> string option \<Rightarrow> bool" where
  "unmatched st gid comment =
     (\<not> (comment_present comment \<and> hits_reject st gid (the comment)) \<and>
      \<not> (comment_present comment \<and> hits_accept st gid (the comment)))"

section \<open>Example values\<close>

text \<open>Concrete settings, events and states at which the theorems below are instantiated.\<close>

definition example_db :: settings_db where
  "example_db = (\<lambda>g. Map.empty)(''1000'' := [''spamming_ban_time'' \<mapsto> 10])"

definition example_event :: message_event where
  "example_event = \<lparr>group_id = ''1000'', sender_id = ''42'', self_id = ''99'', n_messages = 1\<rparr>"

text \<open>The state after a burst of five messages within 0.4 seconds, flagged at 100.4.\<close>

definition example_banned_state :: flood_state where
  "example_banned_state =
     snd (observe_many example_db example_event
            [100, 1001 / 10, 1002 / 10, 1003 / 10, 1004 / 10] flood_init)"

text \<open>The same settings after the flood-ban duration of the group was changed from 10 to 1.\<close>

definition example_db_changed :: settings_db where
  "example_db_changed = db_set example_db ''1000'' ''spamming_ban_time'' 1"

text \<open>A vote configuration: settlement after 60 seconds, threshold 2.\<close>

definition example_vote_conf :: vote_ban_conf where
  "example_vote_conf = \<lparr>conf_ttl = 60, conf_threshold = 2\<rparr>"

text \<open>
  A history of group 1000. A vote on user 2001 is started at time 0 and passes early with
  two agreeing votes. A vote on user 2002 is started at time 20 (it expires at 80) and
  receives one agreeing vote. The settlement task of the first vote ends its sleep (at 60),
  a further vote is cast, and the settlement task of the second vote ends its sleep.
\<close>

definition example_vote_events :: "vote_event list" where
  "example_vote_events =
     [StartVote 0 ''1000'' [''2001''] (Some 600) 0,
      CastVote ''1000'' ''3001'' True,
      CastVote ''1000'' ''3002'' True,
      StartVote 20 ''1000'' [''2002''] (Some 300) 0,
      CastVote ''1000'' ''3001'' True,
      TimerFires 0,
      CastVote ''1000'' ''3002'' False,
      TimerFires 0]"

text \<open>A session with one vote for and one against, and a state that holds it.\<close>

definition example_tied_record :: vote_record where
  "example_tied_record =
     \<lparr>target = ''2001'', votes = [(''3001'', True), (''3002'', False)], ban_time = 600,
      expire = 60, threshold = 2\<rparr>"

definition example_tied_state :: vote_state where
  "example_tied_state =
     \<lparr>vote_cache = [''1000'' \<mapsto> example_tied_record], pending = [(''1000'', 60)]\<rparr>"

text \<open>External calls that all return, and external calls of which the unguarded send raises.\<close>

definition calls_return :: external where
  "calls_return = \<lparr>nickname_returns = True, try_block = TryOk, send_returns = True\<rparr>"

definition send_raises :: external where
  "send_raises = \<lparr>nickname_returns = True, try_block = TryOk, send_returns = False\<rparr>"

text \<open>A session with two votes for and one against, and a state that holds it.\<close>

definition example_majority_record :: vote_record where
  "example_majority_record =
     \<lparr>target = ''2001'', votes = [(''3001'', True), (''3002'', False), (''3003'', True)],
      ban_time = 600, expire = 60, threshold = 5\<rparr>"

definition example_majority_state :: vote_state where
  "example_majority_state =
     \<lparr>vote_cache = [''1000'' \<mapsto> example_majority_record], pending = [(''1000'', 60)]\<rparr>"

text \<open>Join settings of group 1000: three attempts allowed, a blacklist with one user.\<close>

definition example_join_conf :: join_conf where
  "example_join_conf =
     \<lparr>default_switch = True, default_min_level = 0, default_max_time = 0,
      no_match_reject = False\<rparr>"

definition example_join_state :: join_state where
  "example_join_state =
     \<lparr>cfg = [''1000'' \<mapsto>
         \<lparr>switch = Some True, accept_keywords = Some [''Python''],
          reject_keywords = Some [''spam''], min_level = Some 0, max_time = Some 3,
          block_ids = Some [''666'']\<rparr>],
      fail = [''1000_42'' \<mapsto> 2]\<rparr>"

definition example_fresh_join_state :: join_state where
  "example_fresh_join_state = example_join_state\<lparr>fail := Map.empty\<rparr>"

section \<open>Properties of LinkGuard\<close>







lemma lower_http: "lower ''http://'' = ''http://''" and lower_https: "lower ''https://'' = ''https://''"
  by (simp_all add: lower_def lower_char_def)






section \<open>Properties of the flood detector\<close>

lemma msg_timestamps_set_timestamps [simp]:
  "msg_timestamps (set_timestamps st g u ts) g' u' = (if g' = g \<and> u' = u then ts else msg_timestamps st g' u')"
  by (simp add: set_timestamps_def)

lemma last_banned_set_timestamps [simp]:
  "last_banned_time (set_timestamps st g u ts) = last_banned_time st"
  by (simp add: set_timestamps_def)

lemma msg_timestamps_set_last_banned [simp]:
  "msg_timestamps (set_last_banned st g u t) = msg_timestamps st"
  by (simp add: set_last_banned_def)

lemma last_banned_set_last_banned [simp]:
  "last_banned_time (set_last_banned st g u t) g' u' = (if g' = g \<and> u' = u then t else last_banned_time st g' u')"
  by (simp add: set_last_banned_def)

lemma intervals_all_iff:
  assumes "length r = spamming_count"
  shows "list_all (\<lambda>interval. interval < spamming_interval) (intervals r)
         \<longleftrightarrow> (\<forall>i. Suc i < length r \<longrightarrow> r ! Suc i - r ! i < spamming_interval)"
proof -
  have "list_all (\<lambda>interval. interval < spamming_interval) (intervals r)
        \<longleftrightarrow> (\<forall>i \<in> {0 ..< spamming_count - 1}. r ! Suc i - r ! i < spamming_interval)"
    by (simp add: intervals_def list_all_iff)
  also have "\<dots> \<longleftrightarrow> (\<forall>i. Suc i < length r \<longrightarrow> r ! Suc i - r ! i < spamming_interval)"
    using assms by (auto simp: spamming_count_def)
  finally show ?thesis .
qed

lemma flood_check_iff_spec:
  "(spamming_count \<le> length w \<and>
    list_all (\<lambda>interval. interval < spamming_interval)
      (intervals (drop (length w - spamming_count) w))) \<longleftrightarrow> spec_flood_run w"
proof (cases "spamming_count \<le> length w")
  case True
  then have "length (drop (length w - spamming_count) w) = spamming_count" by simp
  from intervals_all_iff [OF this] True show ?thesis
    by (simp add: spec_flood_run_def Let_def)
next
  case False
  then show ?thesis by (simp add: spec_flood_run_def)
qed

lemma spamming_ban_cooldown:
  assumes "now - last_banned_time st (group_id ev) (sender_id ev)
             < real_of_int (db_get db (group_id ev) ''spamming_ban_time'' 0)"
  shows "spamming_ban db ev now st = (None, st)"
  using assms by (simp add: spamming_ban_def Let_def)

lemma spamming_ban_active:
  assumes "sender_id ev \<noteq> self_id ev"
    and "0 < db_get db (group_id ev) ''spamming_ban_time'' 0"
    and "n_messages ev \<noteq> 0"
    and "\<not> now - last_banned_time st (group_id ev) (sender_id ev)
             < real_of_int (db_get db (group_id ev) ''spamming_ban_time'' 0)"
  shows "spamming_ban db ev now st =
     (let w = deque_append (msg_timestamps st (group_id ev) (sender_id ev)) now;
          st1 = set_timestamps st (group_id ev) (sender_id ev) w in
      if spec_flood_run w
      then (Some (db_get db (group_id ev) ''spamming_ban_time'' 0),
            set_timestamps (set_last_banned st1 (group_id ev) (sender_id ev) now)
              (group_id ev) (sender_id ev) [])
      else (None, st1))"
proof -
  let ?w = "deque_append (msg_timestamps st (group_id ev) (sender_id ev)) now"
  have "spec_flood_run ?w \<longleftrightarrow> (spamming_count \<le> length ?w \<and>
    list_all (\<lambda>interval. interval < spamming_interval)
      (intervals (drop (length ?w - spamming_count) ?w)))"
    by (simp only: flood_check_iff_spec)
  then show ?thesis using assms
    by (simp add: spamming_ban_def Let_def)
qed

lemma spec_flood_run_short: "length w < spamming_count \<Longrightarrow> \<not> spec_flood_run w"
  by (simp add: spec_flood_run_def)

lemma spec_flood_run_five:
  "spec_flood_run [t1, t2, t3, t4, t5] \<longleftrightarrow>
     t2 - t1 < 1 / 2 \<and> t3 - t2 < 1 / 2 \<and> t4 - t3 < 1 / 2 \<and> t5 - t4 < 1 / 2"
proof -
  have "spec_flood_run [t1, t2, t3, t4, t5] \<longleftrightarrow>
     (spamming_count \<le> length [t1, t2, t3, t4, t5] \<and>
    list_all (\<lambda>interval. interval < spamming_interval)
      (intervals (drop (length [t1, t2, t3, t4, t5] - spamming_count) [t1, t2, t3, t4, t5])))"
    by (simp only: flood_check_iff_spec)
  also have "\<dots> \<longleftrightarrow> t2 - t1 < 1 / 2 \<and> t3 - t2 < 1 / 2 \<and> t4 - t3 < 1 / 2 \<and> t5 - t4 < 1 / 2"
    by (simp add: spamming_count_def spamming_interval_def intervals_def upt_rec)
  finally show ?thesis .
qed

lemma deque_append_short:
  "length dq < spamming_count \<Longrightarrow> deque_append dq x = dq @ [x]"
  by (simp add: deque_append_def Let_def)

lemma spamming_ban_short:
  assumes "sender_id ev \<noteq> self_id ev"
    and "0 < db_get db (group_id ev) ''spamming_ban_time'' 0"
    and "n_messages ev \<noteq> 0"
    and "\<not> now - last_banned_time st (group_id ev) (sender_id ev)
             < real_of_int (db_get db (group_id ev) ''spamming_ban_time'' 0)"
    and "Suc (length (msg_timestamps st (group_id ev) (sender_id ev))) < spamming_count"
  shows "spamming_ban db ev now st =
     (None, set_timestamps st (group_id ev) (sender_id ev)
              (msg_timestamps st (group_id ev) (sender_id ev) @ [now]))"
proof -
  have a: "deque_append (msg_timestamps st (group_id ev) (sender_id ev)) now
        = msg_timestamps st (group_id ev) (sender_id ev) @ [now]"
    using assms(5) by (simp add: deque_append_short)
  have b: "\<not> spec_flood_run (msg_timestamps st (group_id ev) (sender_id ev) @ [now])"
    using assms(5) by (simp add: spec_flood_run_short)
  show ?thesis
    using spamming_ban_active [OF assms(1-4)] a b by (simp add: Let_def)
qed

lemma observe_five:
  assumes g: "sender_id ev \<noteq> self_id ev"
      "0 < db_get db (group_id ev) ''spamming_ban_time'' 0"
      "n_messages ev \<noteq> 0"
    and empty: "msg_timestamps st (group_id ev) (sender_id ev) = []"
    and cool: "\<not> t1 - last_banned_time st (group_id ev) (sender_id ev)
             < real_of_int (db_get db (group_id ev) ''spamming_ban_time'' 0)"
    and mono: "0 \<le> t2 - t1" "0 \<le> t3 - t2" "0 \<le> t4 - t3" "0 \<le> t5 - t4"
    and fast: "t2 - t1 < spamming_interval" "t3 - t2 < spamming_interval"
      "t4 - t3 < spamming_interval" "t5 - t4 < spamming_interval"
  shows "observe_many db ev [t1, t2, t3, t4, t5] st =
     ([None, None, None, None, Some (db_get db (group_id ev) ''spamming_ban_time'' 0)],
      set_timestamps (set_last_banned st (group_id ev) (sender_id ev) t5)
        (group_id ev) (sender_id ev) [])"
proof -
  let ?g = "group_id ev" and ?s = "sender_id ev"
  let ?bt = "real_of_int (db_get db (group_id ev) ''spamming_ban_time'' 0)"
  let ?l = "last_banned_time st ?g ?s"
  define s1 where "s1 = set_timestamps st ?g ?s [t1]"
  define s2 where "s2 = set_timestamps s1 ?g ?s [t1, t2]"
  define s3 where "s3 = set_timestamps s2 ?g ?s [t1, t2, t3]"
  define s4 where "s4 = set_timestamps s3 ?g ?s [t1, t2, t3, t4]"
  have c2: "\<not> t2 - ?l < ?bt" and c3: "\<not> t3 - ?l < ?bt"
    and c4: "\<not> t4 - ?l < ?bt" and c5: "\<not> t5 - ?l < ?bt"
    using cool mono by linarith+
  have r1: "spamming_ban db ev t1 st = (None, s1)"
    using spamming_ban_short [OF g cool] empty by (simp add: s1_def spamming_count_def)
  have r2: "spamming_ban db ev t2 s1 = (None, s2)"
    using spamming_ban_short [OF g, of t2 s1] c2 by (simp add: s1_def s2_def spamming_count_def)
  have r3: "spamming_ban db ev t3 s2 = (None, s3)"
    using spamming_ban_short [OF g, of t3 s2] c3
    by (simp add: s1_def s2_def s3_def spamming_count_def)
  have r4: "spamming_ban db ev t4 s3 = (None, s4)"
    using spamming_ban_short [OF g, of t4 s3] c4
    by (simp add: s1_def s2_def s3_def s4_def spamming_count_def)
  have w5: "deque_append (msg_timestamps s4 ?g ?s) t5 = [t1, t2, t3, t4, t5]"
    by (simp add: s4_def deque_append_def spamming_count_def)
  have f5: "spec_flood_run [t1, t2, t3, t4, t5]"
    using fast by (simp add: spec_flood_run_five spamming_interval_def)
  have l5: "\<not> t5 - last_banned_time s4 ?g ?s < ?bt"
    using c5 by (simp add: s1_def s2_def s3_def s4_def)
  have r5: "spamming_ban db ev t5 s4 =
      (Some (db_get db ?g ''spamming_ban_time'' 0),
       set_timestamps (set_last_banned st ?g ?s t5) ?g ?s [])"
    using spamming_ban_active [OF g l5] w5 f5
    by (simp add: Let_def s1_def s2_def s3_def s4_def set_timestamps_def set_last_banned_def)
  show ?thesis by (simp add: r1 r2 r3 r4 r5)
qed

lemma example_flood_facts:
  "group_id example_event = ''1000''"
  "sender_id example_event = ''42''"
  "self_id example_event = ''99''"
  "n_messages example_event = 1"
  "db_get example_db ''1000'' ''spamming_ban_time'' 0 = 10"
  "msg_timestamps flood_init g u = []"
  "last_banned_time flood_init g u = 0"
  by (simp_all add: example_event_def example_db_def db_get_def flood_init_def)

lemma flood_observe_nonempty:
  assumes not_self: "sender_id ev \<noteq> self_id ev"
    and enabled: "0 < db_get db (group_id ev) ''spamming_ban_time'' 0"
    and nonempty: "n_messages ev \<noteq> 0"
  shows
   "(\<forall>now. \<not> now - last_banned_time st (group_id ev) (sender_id ev)
              < real_of_int (db_get db (group_id ev) ''spamming_ban_time'' 0) \<longrightarrow>
       (fst (spamming_ban db ev now st) = Some (db_get db (group_id ev) ''spamming_ban_time'' 0)
          \<longleftrightarrow> spec_flood_run (deque_append (msg_timestamps st (group_id ev) (sender_id ev)) now))
     \<and> (fst (spamming_ban db ev now st) = None
          \<longleftrightarrow> \<not> spec_flood_run (deque_append (msg_timestamps st (group_id ev) (sender_id ev)) now))
     \<and> (spec_flood_run (deque_append (msg_timestamps st (group_id ev) (sender_id ev)) now) \<longrightarrow>
          msg_timestamps (snd (spamming_ban db ev now st)) (group_id ev) (sender_id ev) = []
        \<and> last_banned_time (snd (spamming_ban db ev now st)) (group_id ev) (sender_id ev) = now))
  \<and> (\<forall>now. now - last_banned_time st (group_id ev) (sender_id ev)
              < real_of_int (db_get db (group_id ev) ''spamming_ban_time'' 0) \<longrightarrow>
       spamming_ban db ev now st = (None, st))
  \<and> (\<forall>t1 t2 t3 t4 t5.
       msg_timestamps st (group_id ev) (sender_id ev) = []
     \<and> \<not> t1 - last_banned_time st (group_id ev) (sender_id ev)
              < real_of_int (db_get db (group_id ev) ''spamming_ban_time'' 0)
     \<and> 0 \<le> t2 - t1 \<and> 0 \<le> t3 - t2 \<and> 0 \<le> t4 - t3 \<and> 0 \<le> t5 - t4
     \<and> t2 - t1 < spamming_interval \<and> t3 - t2 < spamming_interval
     \<and> t4 - t3 < spamming_interval \<and> t5 - t4 < spamming_interval \<longrightarrow>
       fst (observe_many db ev [t1, t2, t3, t4, t5] st)
         = [None, None, None, None, Some (db_get db (group_id ev) ''spamming_ban_time'' 0)]
     \<and> (\<forall>t. t - t5 < real_of_int (db_get db (group_id ev) ''spamming_ban_time'' 0) \<longrightarrow>
           spamming_ban db ev t (snd (observe_many db ev [t1, t2, t3, t4, t5] st))
             = (None, snd (observe_many db ev [t1, t2, t3, t4, t5] st))))"
proof (intro conjI allI impI)
  fix now
  assume c: "\<not> now - last_banned_time st (group_id ev) (sender_id ev)
              < real_of_int (db_get db (group_id ev) ''spamming_ban_time'' 0)"
  note act = spamming_ban_active [OF not_self enabled nonempty c]
  show "fst (spamming_ban db ev now st) = Some (db_get db (group_id ev) ''spamming_ban_time'' 0)
          \<longleftrightarrow> spec_flood_run (deque_append (msg_timestamps st (group_id ev) (sender_id ev)) now)"
    by (simp add: act Let_def)
  show "fst (spamming_ban db ev now st) = None
          \<longleftrightarrow> \<not> spec_flood_run (deque_append (msg_timestamps st (group_id ev) (sender_id ev)) now)"
    by (simp add: act Let_def)
  assume f: "spec_flood_run (deque_append (msg_timestamps st (group_id ev) (sender_id ev)) now)"
  show "msg_timestamps (snd (spamming_ban db ev now st)) (group_id ev) (sender_id ev) = []"
    using f by (simp add: act Let_def)
  show "last_banned_time (snd (spamming_ban db ev now st)) (group_id ev) (sender_id ev) = now"
    using f by (simp add: act Let_def)
next
  fix now
  assume "now - last_banned_time st (group_id ev) (sender_id ev)
              < real_of_int (db_get db (group_id ev) ''spamming_ban_time'' 0)"
  then show "spamming_ban db ev now st = (None, st)"
    by (rule spamming_ban_cooldown)
next
  fix t1 t2 t3 t4 t5 :: real
  assume h: "msg_timestamps st (group_id ev) (sender_id ev) = []
     \<and> \<not> t1 - last_banned_time st (group_id ev) (sender_id ev)
              < real_of_int (db_get db (group_id ev) ''spamming_ban_time'' 0)
     \<and> 0 \<le> t2 - t1 \<and> 0 \<le> t3 - t2 \<and> 0 \<le> t4 - t3 \<and> 0 \<le> t5 - t4
     \<and> t2 - t1 < spamming_interval \<and> t3 - t2 < spamming_interval
     \<and> t4 - t3 < spamming_interval \<and> t5 - t4 < spamming_interval"
  have run: "observe_many db ev [t1, t2, t3, t4, t5] st =
     ([None, None, None, None, Some (db_get db (group_id ev) ''spamming_ban_time'' 0)],
      set_timestamps (set_last_banned st (group_id ev) (sender_id ev) t5)
        (group_id ev) (sender_id ev) [])"
    using h by (intro observe_five [OF not_self enabled nonempty]) simp_all
  show "fst (observe_many db ev [t1, t2, t3, t4, t5] st)
         = [None, None, None, None, Some (db_get db (group_id ev) ''spamming_ban_time'' 0)]"
    unfolding run by simp
  fix t
  assume "t - t5 < real_of_int (db_get db (group_id ev) ''spamming_ban_time'' 0)"
  then show "spamming_ban db ev t (snd (observe_many db ev [t1, t2, t3, t4, t5] st))
             = (None, snd (observe_many db ev [t1, t2, t3, t4, t5] st))"
    unfolding run by (intro spamming_ban_cooldown) simp
qed

lemma flood_observe_recorded:
  assumes not_self: "sender_id ev \<noteq> self_id ev"
    and enabled: "0 < db_get db (group_id ev) ''spamming_ban_time'' 0"
    and nonempty: "n_messages ev \<noteq> 0"
  shows "(\<forall>now. \<not> now - last_banned_time st (group_id ev) (sender_id ev)
              < real_of_int (db_get db (group_id ev) ''spamming_ban_time'' 0) \<longrightarrow>
       spamming_ban db ev now st =
         (if spec_flood_run (deque_append (msg_timestamps st (group_id ev) (sender_id ev)) now)
          then (Some (db_get db (group_id ev) ''spamming_ban_time'' 0),
                set_timestamps (set_last_banned st (group_id ev) (sender_id ev) now) (group_id ev) (sender_id ev) [])
          else (None, set_timestamps st (group_id ev) (sender_id ev)
                  (deque_append (msg_timestamps st (group_id ev) (sender_id ev)) now))))"
    and "(\<forall>now. \<not> now - last_banned_time st (group_id ev) (sender_id ev)
              < real_of_int (db_get db (group_id ev) ''spamming_ban_time'' 0)
       \<and> \<not> spec_flood_run (deque_append (msg_timestamps st (group_id ev) (sender_id ev)) now) \<longrightarrow>
       msg_timestamps (snd (spamming_ban db ev now st)) (group_id ev) (sender_id ev)
         = (deque_append (msg_timestamps st (group_id ev) (sender_id ev)) now)
     \<and> last_banned_time (snd (spamming_ban db ev now st)) = last_banned_time st)"
proof -
  have collapse: "set_timestamps (set_last_banned (set_timestamps st g u w) g u t) g u []
      = set_timestamps (set_last_banned st g u t) g u []" for g u w t
    by (simp add: set_timestamps_def set_last_banned_def)
  show "(\<forall>now. \<not> now - last_banned_time st (group_id ev) (sender_id ev)
              < real_of_int (db_get db (group_id ev) ''spamming_ban_time'' 0) \<longrightarrow>
       spamming_ban db ev now st =
         (if spec_flood_run (deque_append (msg_timestamps st (group_id ev) (sender_id ev)) now)
          then (Some (db_get db (group_id ev) ''spamming_ban_time'' 0),
                set_timestamps (set_last_banned st (group_id ev) (sender_id ev) now) (group_id ev) (sender_id ev) [])
          else (None, set_timestamps st (group_id ev) (sender_id ev)
                  (deque_append (msg_timestamps st (group_id ev) (sender_id ev)) now))))"
  proof (intro allI impI)
    fix now
    assume c: "\<not> now - last_banned_time st (group_id ev) (sender_id ev)
              < real_of_int (db_get db (group_id ev) ''spamming_ban_time'' 0)"
    show "spamming_ban db ev now st =
         (if spec_flood_run (deque_append (msg_timestamps st (group_id ev) (sender_id ev)) now)
          then (Some (db_get db (group_id ev) ''spamming_ban_time'' 0),
                set_timestamps (set_last_banned st (group_id ev) (sender_id ev) now) (group_id ev) (sender_id ev) [])
          else (None, set_timestamps st (group_id ev) (sender_id ev)
                  (deque_append (msg_timestamps st (group_id ev) (sender_id ev)) now)))"
      by (simp add: spamming_ban_active [OF not_self enabled nonempty c] Let_def collapse)
  qed
  then show "(\<forall>now. \<not> now - last_banned_time st (group_id ev) (sender_id ev)
              < real_of_int (db_get db (group_id ev) ''spamming_ban_time'' 0)
       \<and> \<not> spec_flood_run (deque_append (msg_timestamps st (group_id ev) (sender_id ev)) now) \<longrightarrow>
       msg_timestamps (snd (spamming_ban db ev now st)) (group_id ev) (sender_id ev)
         = (deque_append (msg_timestamps st (group_id ev) (sender_id ev)) now)
     \<and> last_banned_time (snd (spamming_ban db ev now st)) = last_banned_time st)"
    by simp
qed

lemma deque_append_full:
  "length w = spamming_count \<Longrightarrow> deque_append w x = tl w @ [x]"
  by (cases w) (simp_all add: deque_append_def Let_def spamming_count_def)

text \<open>
  C2. For a sender other than the bot, with a flood-ban duration above zero configured:
  an event whose message chain is empty is not an observation (nothing is recorded and no
  ban is flagged). For an event with a message: inside the cooldown it returns no ban and
  leaves the state alone. Outside the cooldown the timestamp is recorded in the sender's
  window (appended, the oldest entry dropped when the window is full), and a ban is flagged
  exactly when the last \<open>spamming_count\<close> recorded timestamps (the new one included) all
  have consecutive gaps strictly below \<open>spamming_interval\<close>; then the window is cleared
  and the ban mark is set to the current time; with any gap at or above the interval, or
  fewer recorded timestamps, there is no ban, the window keeps the new timestamp and the
  ban mark stays. The result and the state after every observation are determined, hence so
  is the outcome of every sequence of observations. A burst of five timestamps from an
  empty window is flagged exactly once, at its fifth message, and every observation within
  the ban duration of that trigger returns no ban.
\<close>

theorem flood_observe_run:
  assumes not_self: "sender_id ev \<noteq> self_id ev"
    and enabled: "0 < db_get db (group_id ev) ''spamming_ban_time'' 0"
  shows
   "(n_messages ev = 0 \<longrightarrow> (\<forall>now. spamming_ban db ev now st = (None, st)))
  \<and> (n_messages ev \<noteq> 0 \<longrightarrow>
     (\<forall>now. \<not> now - last_banned_time st (group_id ev) (sender_id ev)
              < real_of_int (db_get db (group_id ev) ''spamming_ban_time'' 0) \<longrightarrow>
       spamming_ban db ev now st =
         (if spec_flood_run (deque_append (msg_timestamps st (group_id ev) (sender_id ev)) now)
          then (Some (db_get db (group_id ev) ''spamming_ban_time'' 0),
                set_timestamps (set_last_banned st (group_id ev) (sender_id ev) now) (group_id ev) (sender_id ev) [])
          else (None, set_timestamps st (group_id ev) (sender_id ev)
                  (deque_append (msg_timestamps st (group_id ev) (sender_id ev)) now))))
   \<and> (\<forall>now. \<not> now - last_banned_time st (group_id ev) (sender_id ev)
              < real_of_int (db_get db (group_id ev) ''spamming_ban_time'' 0)
       \<and> \<not> spec_flood_run (deque_append (msg_timestamps st (group_id ev) (sender_id ev)) now) \<longrightarrow>
       msg_timestamps (snd (spamming_ban db ev now st)) (group_id ev) (sender_id ev)
         = (deque_append (msg_timestamps st (group_id ev) (sender_id ev)) now)
     \<and> last_banned_time (snd (spamming_ban db ev now st)) = last_banned_time st)
   \<and> (\<forall>now. \<not> now - last_banned_time st (group_id ev) (sender_id ev)
                 < real_of_int (db_get db (group_id ev) ''spamming_ban_time'' 0) \<longrightarrow>
          (fst (spamming_ban db ev now st) = Some (db_get db (group_id ev) ''spamming_ban_time'' 0)
             \<longleftrightarrow> spec_flood_run (deque_append (msg_timestamps st (group_id ev) (sender_id ev)) now))
        \<and> (fst (spamming_ban db ev now st) = None
             \<longleftrightarrow> \<not> spec_flood_run (deque_append (msg_timestamps st (group_id ev) (sender_id ev)) now))
        \<and> (spec_flood_run (deque_append (msg_timestamps st (group_id ev) (sender_id ev)) now) \<longrightarrow>
             msg_timestamps (snd (spamming_ban db ev now st)) (group_id ev) (sender_id ev) = []
           \<and> last_banned_time (snd (spamming_ban db ev now st)) (group_id ev) (sender_id ev) = now))
     \<and> (\<forall>now. now - last_banned_time st (group_id ev) (sender_id ev)
                 < real_of_int (db_get db (group_id ev) ''spamming_ban_time'' 0) \<longrightarrow>
          spamming_ban db ev now st = (None, st))
     \<and> (\<forall>t1 t2 t3 t4 t5.
          msg_timestamps st (group_id ev) (sender_id ev) = []
        \<and> \<not> t1 - last_banned_time st (group_id ev) (sender_id ev)
                 < real_of_int (db_get db (group_id ev) ''spamming_ban_time'' 0)
        \<and> 0 \<le> t2 - t1 \<and> 0 \<le> t3 - t2 \<and> 0 \<le> t4 - t3 \<and> 0 \<le> t5 - t4
        \<and> t2 - t1 < spamming_interval \<and> t3 - t2 < spamming_interval
        \<and> t4 - t3 < spamming_interval \<and> t5 - t4 < spamming_interval \<longrightarrow>
          fst (observe_many db ev [t1, t2, t3, t4, t5] st)
            = [None, None, None, None, Some (db_get db (group_id ev) ''spamming_ban_time'' 0)]
        \<and> (\<forall>t. t - t5 < real_of_int (db_get db (group_id ev) ''spamming_ban_time'' 0) \<longrightarrow>
              spamming_ban db ev t (snd (observe_many db ev [t1, t2, t3, t4, t5] st))
                = (None, snd (observe_many db ev [t1, t2, t3, t4, t5] st)))))
  \<and> (\<forall>w x. (length w < spamming_count \<longrightarrow> deque_append w x = w @ [x])
          \<and> (length w = spamming_count \<longrightarrow> deque_append w x = tl w @ [x]))"
proof -
  have empty: "n_messages ev = 0 \<longrightarrow> (\<forall>now. spamming_ban db ev now st = (None, st))"
    by (simp add: spamming_ban_def)
  have deq: "(\<forall>w x. (length w < spamming_count \<longrightarrow> deque_append w x = w @ [x])
          \<and> (length w = spamming_count \<longrightarrow> deque_append w x = tl w @ [x]))"
    by (simp add: deque_append_short deque_append_full)
  have full: "n_messages ev \<noteq> 0 \<longrightarrow>
     (\<forall>now. \<not> now - last_banned_time st (group_id ev) (sender_id ev)
              < real_of_int (db_get db (group_id ev) ''spamming_ban_time'' 0) \<longrightarrow>
       spamming_ban db ev now st =
         (if spec_flood_run (deque_append (msg_timestamps st (group_id ev) (sender_id ev)) now)
          then (Some (db_get db (group_id ev) ''spamming_ban_time'' 0),
                set_timestamps (set_last_banned st (group_id ev) (sender_id ev) now) (group_id ev) (sender_id ev) [])
          else (None, set_timestamps st (group_id ev) (sender_id ev)
                  (deque_append (msg_timestamps st (group_id ev) (sender_id ev)) now))))
   \<and> (\<forall>now. \<not> now - last_banned_time st (group_id ev) (sender_id ev)
              < real_of_int (db_get db (group_id ev) ''spamming_ban_time'' 0)
       \<and> \<not> spec_flood_run (deque_append (msg_timestamps st (group_id ev) (sender_id ev)) now) \<longrightarrow>
       msg_timestamps (snd (spamming_ban db ev now st)) (group_id ev) (sender_id ev)
         = (deque_append (msg_timestamps st (group_id ev) (sender_id ev)) now)
     \<and> last_banned_time (snd (spamming_ban db ev now st)) = last_banned_time st)
   \<and> (\<forall>now. \<not> now - last_banned_time st (group_id ev) (sender_id ev)
                 < real_of_int (db_get db (group_id ev) ''spamming_ban_time'' 0) \<longrightarrow>
          (fst (spamming_ban db ev now st) = Some (db_get db (group_id ev) ''spamming_ban_time'' 0)
             \<longleftrightarrow> spec_flood_run (deque_append (msg_timestamps st (group_id ev) (sender_id ev)) now))
        \<and> (fst (spamming_ban db ev now st) = None
             \<longleftrightarrow> \<not> spec_flood_run (deque_append (msg_timestamps st (group_id ev) (sender_id ev)) now))
        \<and> (spec_flood_run (deque_append (msg_timestamps st (group_id ev) (sender_id ev)) now) \<longrightarrow>
             msg_timestamps (snd (spamming_ban db ev now st)) (group_id ev) (sender_id ev) = []
           \<and> last_banned_time (snd (spamming_ban db ev now st)) (group_id ev) (sender_id ev) = now))
     \<and> (\<forall>now. now - last_banned_time st (group_id ev) (sender_id ev)
                 < real_of_int (db_get db (group_id ev) ''spamming_ban_time'' 0) \<longrightarrow>
          spamming_ban db ev now st = (None, st))
     \<and> (\<forall>t1 t2 t3 t4 t5.
          msg_timestamps st (group_id ev) (sender_id ev) = []
        \<and> \<not> t1 - last_banned_time st (group_id ev) (sender_id ev)
                 < real_of_int (db_get db (group_id ev) ''spamming_ban_time'' 0)
        \<and> 0 \<le> t2 - t1 \<and> 0 \<le> t3 - t2 \<and> 0 \<le> t4 - t3 \<and> 0 \<le> t5 - t4
        \<and> t2 - t1 < spamming_interval \<and> t3 - t2 < spamming_interval
        \<and> t4 - t3 < spamming_interval \<and> t5 - t4 < spamming_interval \<longrightarrow>
          fst (observe_many db ev [t1, t2, t3, t4, t5] st)
            = [None, None, None, None, Some (db_get db (group_id ev) ''spamming_ban_time'' 0)]
        \<and> (\<forall>t. t - t5 < real_of_int (db_get db (group_id ev) ''spamming_ban_time'' 0) \<longrightarrow>
              spamming_ban db ev t (snd (observe_many db ev [t1, t2, t3, t4, t5] st))
                = (None, snd (observe_many db ev [t1, t2, t3, t4, t5] st))))"
  proof (rule impI)
    assume ne: "n_messages ev \<noteq> 0"
    from flood_observe_recorded(1) [OF not_self enabled ne]
      flood_observe_recorded(2) [OF not_self enabled ne]
      flood_observe_nonempty [OF not_self enabled ne]
    show "(\<forall>now. \<not> now - last_banned_time st (group_id ev) (sender_id ev)
              < real_of_int (db_get db (group_id ev) ''spamming_ban_time'' 0) \<longrightarrow>
       spamming_ban db ev now st =
         (if spec_flood_run (deque_append (msg_timestamps st (group_id ev) (sender_id ev)) now)
          then (Some (db_get db (group_id ev) ''spamming_ban_time'' 0),
                set_timestamps (set_last_banned st (group_id ev) (sender_id ev) now) (group_id ev) (sender_id ev) [])
          else (None, set_timestamps st (group_id ev) (sender_id ev)
                  (deque_append (msg_timestamps st (group_id ev) (sender_id ev)) now))))
   \<and> (\<forall>now. \<not> now - last_banned_time st (group_id ev) (sender_id ev)
              < real_of_int (db_get db (group_id ev) ''spamming_ban_time'' 0)
       \<and> \<not> spec_flood_run (deque_append (msg_timestamps st (group_id ev) (sender_id ev)) now) \<longrightarrow>
       msg_timestamps (snd (spamming_ban db ev now st)) (group_id ev) (sender_id ev)
         = (deque_append (msg_timestamps st (group_id ev) (sender_id ev)) now)
     \<and> last_banned_time (snd (spamming_ban db ev now st)) = last_banned_time st)
   \<and> (\<forall>now. \<not> now - last_banned_time st (group_id ev) (sender_id ev)
                 < real_of_int (db_get db (group_id ev) ''spamming_ban_time'' 0) \<longrightarrow>
          (fst (spamming_ban db ev now st) = Some (db_get db (group_id ev) ''spamming_ban_time'' 0)
             \<longleftrightarrow> spec_flood_run (deque_append (msg_timestamps st (group_id ev) (sender_id ev)) now))
        \<and> (fst (spamming_ban db ev now st) = None
             \<longleftrightarrow> \<not> spec_flood_run (deque_append (msg_timestamps st (group_id ev) (sender_id ev)) now))
        \<and> (spec_flood_run (deque_append (msg_timestamps st (group_id ev) (sender_id ev)) now) \<longrightarrow>
             msg_timestamps (snd (spamming_ban db ev now st)) (group_id ev) (sender_id ev) = []
           \<and> last_banned_time (snd (spamming_ban db ev now st)) (group_id ev) (sender_id ev) = now))
     \<and> (\<forall>now. now - last_banned_time st (group_id ev) (sender_id ev)
                 < real_of_int (db_get db (group_id ev) ''spamming_ban_time'' 0) \<longrightarrow>
          spamming_ban db ev now st = (None, st))
     \<and> (\<forall>t1 t2 t3 t4 t5.
          msg_timestamps st (group_id ev) (sender_id ev) = []
        \<and> \<not> t1 - last_banned_time st (group_id ev) (sender_id ev)
                 < real_of_int (db_get db (group_id ev) ''spamming_ban_time'' 0)
        \<and> 0 \<le> t2 - t1 \<and> 0 \<le> t3 - t2 \<and> 0 \<le> t4 - t3 \<and> 0 \<le> t5 - t4
        \<and> t2 - t1 < spamming_interval \<and> t3 - t2 < spamming_interval
        \<and> t4 - t3 < spamming_interval \<and> t5 - t4 < spamming_interval \<longrightarrow>
          fst (observe_many db ev [t1, t2, t3, t4, t5] st)
            = [None, None, None, None, Some (db_get db (group_id ev) ''spamming_ban_time'' 0)]
        \<and> (\<forall>t. t - t5 < real_of_int (db_get db (group_id ev) ''spamming_ban_time'' 0) \<longrightarrow>
              spamming_ban db ev t (snd (observe_many db ev [t1, t2, t3, t4, t5] st))
                = (None, snd (observe_many db ev [t1, t2, t3, t4, t5] st))))"
      by - (rule conjI, assumption, rule conjI, assumption, assumption)
  qed
  from empty full deq show ?thesis
    by - (rule conjI, assumption, rule conjI, assumption, assumption)
qed

theorem flood_observe_run_witness:
  "sender_id example_event \<noteq> self_id example_event
   \<and> 0 < db_get example_db (group_id example_event) ''spamming_ban_time'' 0
   \<and> n_messages example_event \<noteq> 0
   \<and> fst (observe_many example_db example_event [100, 1001 / 10, 1002 / 10, 1003 / 10, 1004 / 10]
        flood_init) = [None, None, None, None, Some 10]
   \<and> spamming_ban example_db example_event 105
        (snd (observe_many example_db example_event
           [100, 1001 / 10, 1002 / 10, 1003 / 10, 1004 / 10] flood_init))
      = (None, snd (observe_many example_db example_event
           [100, 1001 / 10, 1002 / 10, 1003 / 10, 1004 / 10] flood_init))
   \<and> fst (spamming_ban example_db example_event 100 flood_init) = None
   \<and> msg_timestamps (snd (spamming_ban example_db example_event 100 flood_init)) ''1000'' ''42''
       = [100]
   \<and> fst (observe_many example_db example_event
          [100, 101, 102, 102125 / 1000, 10225 / 100, 102375 / 1000, 1025 / 10] flood_init)
       = [None, None, None, None, None, None, Some 10]"
proof -
  have h1: "sender_id example_event \<noteq> self_id example_event"
    and h2: "0 < db_get example_db (group_id example_event) ''spamming_ban_time'' 0"
    and h3: "n_messages example_event \<noteq> 0"
    by (simp_all add: example_flood_facts)
  note T = flood_observe_run [OF h1 h2, of flood_init]
  from T h3 have run: "\<forall>t1 t2 t3 t4 t5.
       msg_timestamps flood_init (group_id example_event) (sender_id example_event) = []
     \<and> \<not> t1 - last_banned_time flood_init (group_id example_event) (sender_id example_event)
              < real_of_int (db_get example_db (group_id example_event) ''spamming_ban_time'' 0)
     \<and> 0 \<le> t2 - t1 \<and> 0 \<le> t3 - t2 \<and> 0 \<le> t4 - t3 \<and> 0 \<le> t5 - t4
     \<and> t2 - t1 < spamming_interval \<and> t3 - t2 < spamming_interval
     \<and> t4 - t3 < spamming_interval \<and> t5 - t4 < spamming_interval \<longrightarrow>
       fst (observe_many example_db example_event [t1, t2, t3, t4, t5] flood_init)
         = [None, None, None, None,
            Some (db_get example_db (group_id example_event) ''spamming_ban_time'' 0)]
     \<and> (\<forall>t. t - t5 < real_of_int (db_get example_db (group_id example_event) ''spamming_ban_time'' 0) \<longrightarrow>
           spamming_ban example_db example_event t
              (snd (observe_many example_db example_event [t1, t2, t3, t4, t5] flood_init))
             = (None, snd (observe_many example_db example_event [t1, t2, t3, t4, t5] flood_init)))"
    by blast
  have a: "fst (observe_many example_db example_event [100, 1001 / 10, 1002 / 10, 1003 / 10, 1004 / 10]
        flood_init) = [None, None, None, None, Some 10]
     \<and> (\<forall>t. t - 1004 / 10 < real_of_int 10 \<longrightarrow>
           spamming_ban example_db example_event t
              (snd (observe_many example_db example_event
                 [100, 1001 / 10, 1002 / 10, 1003 / 10, 1004 / 10] flood_init))
             = (None, snd (observe_many example_db example_event
                 [100, 1001 / 10, 1002 / 10, 1003 / 10, 1004 / 10] flood_init)))"
    using run [rule_format, of 100 "1001 / 10" "1002 / 10" "1003 / 10" "1004 / 10"]
    by (simp add: example_flood_facts spamming_interval_def)
  from a have b: "spamming_ban example_db example_event 105
        (snd (observe_many example_db example_event
           [100, 1001 / 10, 1002 / 10, 1003 / 10, 1004 / 10] flood_init))
      = (None, snd (observe_many example_db example_event
           [100, 1001 / 10, 1002 / 10, 1003 / 10, 1004 / 10] flood_init))"
    by simp
  from T h3 have "\<forall>now. \<not> now - last_banned_time flood_init (group_id example_event) (sender_id example_event)
              < real_of_int (db_get example_db (group_id example_event) ''spamming_ban_time'' 0) \<longrightarrow>
      (fst (spamming_ban example_db example_event now flood_init) = None
          \<longleftrightarrow> \<not> spec_flood_run (deque_append
                (msg_timestamps flood_init (group_id example_event) (sender_id example_event)) now))"
    by blast
  from this [rule_format, of 100]
  have c: "fst (spamming_ban example_db example_event 100 flood_init) = None"
    by (simp add: example_flood_facts spec_flood_run_short deque_append_short spamming_count_def)
  from T h3 have "\<forall>now. \<not> now - last_banned_time flood_init (group_id example_event) (sender_id example_event)
              < real_of_int (db_get example_db (group_id example_event) ''spamming_ban_time'' 0)
       \<and> \<not> spec_flood_run (deque_append
                (msg_timestamps flood_init (group_id example_event) (sender_id example_event)) now) \<longrightarrow>
       msg_timestamps (snd (spamming_ban example_db example_event now flood_init))
           (group_id example_event) (sender_id example_event)
         = (deque_append
                (msg_timestamps flood_init (group_id example_event) (sender_id example_event)) now)
     \<and> last_banned_time (snd (spamming_ban example_db example_event now flood_init))
         = last_banned_time flood_init"
    by blast
  from this [rule_format, of 100]
  have d: "msg_timestamps (snd (spamming_ban example_db example_event 100 flood_init)) ''1000'' ''42''
       = [100]"
    by (simp add: example_flood_facts spec_flood_run_short deque_append_short spamming_count_def)
  have e: "fst (observe_many example_db example_event
          [100, 101, 102, 102125 / 1000, 10225 / 100, 102375 / 1000, 1025 / 10] flood_init)
       = [None, None, None, None, None, None, Some 10]"
    by (simp add: example_db_def example_event_def flood_init_def spamming_ban_def db_get_def
        Let_def deque_append_def spamming_count_def set_timestamps_def set_last_banned_def
        intervals_def spamming_interval_def upt_rec)
  from h1 h2 h3 a b c d e show ?thesis by blast
qed

lemma deque_append_changes:
  assumes "\<not> spec_flood_run (deque_append w now)"
  shows "deque_append w now \<noteq> w"
proof
  assume eq: "deque_append w now = w"
  show False
  proof (cases "length w < spamming_count")
    case True
    then have "deque_append w now = w @ [now]" by (rule deque_append_short)
    with eq show False by simp
  next
    case False
    have len: "length (deque_append w now) = spamming_count"
      using False by (simp add: deque_append_def Let_def)
    with eq have "length w = 5" by (simp add: spamming_count_def)
    then obtain a b c d e where w: "w = [a, b, c, d, e]"
      by (auto simp: length_Suc_conv eval_nat_numeral)
    have "deque_append w now = [b, c, d, e, now]"
      by (simp add: w deque_append_def spamming_count_def)
    with eq w have "w = [now, now, now, now, now]" by simp
    then have "spec_flood_run w" by (simp add: spec_flood_run_five)
    with eq assms show False by simp
  qed
qed

lemma spamming_ban_skip_iff:
  assumes not_self: "sender_id ev \<noteq> self_id ev"
    and enabled: "0 < db_get db (group_id ev) ''spamming_ban_time'' 0"
    and nonempty: "n_messages ev \<noteq> 0"
  shows "spamming_ban db ev now st = (None, st) \<longleftrightarrow>
         now - last_banned_time st (group_id ev) (sender_id ev)
           < real_of_int (db_get db (group_id ev) ''spamming_ban_time'' 0)"
proof
  assume "now - last_banned_time st (group_id ev) (sender_id ev)
           < real_of_int (db_get db (group_id ev) ''spamming_ban_time'' 0)"
  then show "spamming_ban db ev now st = (None, st)" by (rule spamming_ban_cooldown)
next
  assume skip: "spamming_ban db ev now st = (None, st)"
  show "now - last_banned_time st (group_id ev) (sender_id ev)
           < real_of_int (db_get db (group_id ev) ''spamming_ban_time'' 0)"
  proof (rule ccontr)
    assume c: "\<not> now - last_banned_time st (group_id ev) (sender_id ev)
           < real_of_int (db_get db (group_id ev) ''spamming_ban_time'' 0)"
    let ?w = "deque_append (msg_timestamps st (group_id ev) (sender_id ev)) now"
    note act = spamming_ban_active [OF not_self enabled nonempty c]
    show False
    proof (cases "spec_flood_run ?w")
      case True
      with act skip show False by (simp add: Let_def)
    next
      case False
      with act skip have "set_timestamps st (group_id ev) (sender_id ev) ?w = st"
        by (simp add: Let_def)
      then have "msg_timestamps (set_timestamps st (group_id ev) (sender_id ev) ?w)
                   (group_id ev) (sender_id ev)
                 = msg_timestamps st (group_id ev) (sender_id ev)"
        by simp
      then have "?w = msg_timestamps st (group_id ev) (sender_id ev)" by simp
      with deque_append_changes [OF False] show False by simp
    qed
  qed
qed

lemma example_banned_state_eq:
  "example_banned_state =
     set_timestamps (set_last_banned flood_init ''1000'' ''42'' (1004 / 10)) ''1000'' ''42'' []"
proof -
  have "observe_many example_db example_event
            [100, 1001 / 10, 1002 / 10, 1003 / 10, 1004 / 10] flood_init =
     ([None, None, None, None, Some (db_get example_db (group_id example_event) ''spamming_ban_time'' 0)],
      set_timestamps (set_last_banned flood_init (group_id example_event)
         (sender_id example_event) (1004 / 10))
        (group_id example_event) (sender_id example_event) [])"
    by (rule observe_five) (simp_all add: example_flood_facts spamming_interval_def)
  then show ?thesis
    by (simp add: example_banned_state_def example_event_def)
qed

lemma example_changed_facts:
  "db_get example_db_changed ''1000'' ''spamming_ban_time'' 0 = 1"
  by (simp add: example_db_changed_def db_set_def db_get_def)

text \<open>
  C4, as stated, fails. The group is flagged at 100.4 while the configured duration is 10;
  the duration is then changed to 1. Five messages between 102 and 102.4 all lie within
  10 seconds of the trigger, so a comparison against the previous duration would skip
  them all; the handler compares against the current duration 1, records them and flags
  a second ban at 102.4.
\<close>

theorem cooldown_previous_duration_counterexample:
  "fst (observe_many example_db example_event
          [100, 1001 / 10, 1002 / 10, 1003 / 10, 1004 / 10] flood_init)
     = [None, None, None, None, Some 10]
   \<and> last_banned_time example_banned_state ''1000'' ''42'' = 1004 / 10
   \<and> (1024 / 10 :: real) - 1004 / 10 < 10
   \<and> fst (observe_many example_db example_event
          [102, 1021 / 10, 1022 / 10, 1023 / 10, 1024 / 10] example_banned_state)
     = [None, None, None, None, None]
   \<and> fst (observe_many example_db_changed example_event
          [102, 1021 / 10, 1022 / 10, 1023 / 10, 1024 / 10] example_banned_state)
     = [None, None, None, None, Some 1]"
proof -
  have g: "sender_id example_event \<noteq> self_id example_event"
      "0 < db_get example_db_changed (group_id example_event) ''spamming_ban_time'' 0"
      "n_messages example_event \<noteq> 0"
    by (simp_all add: example_flood_facts example_changed_facts)
  have a: "fst (observe_many example_db example_event
          [100, 1001 / 10, 1002 / 10, 1003 / 10, 1004 / 10] flood_init)
     = [None, None, None, None, Some 10]"
    by (subst observe_five) (simp_all add: example_flood_facts spamming_interval_def)
  have b: "last_banned_time example_banned_state ''1000'' ''42'' = 1004 / 10"
    by (simp add: example_banned_state_eq)
  have c: "spamming_ban example_db example_event t example_banned_state
             = (None, example_banned_state)" if "t - 1004 / 10 < 10" for t
    using that
    by (intro spamming_ban_cooldown) (simp add: example_flood_facts example_banned_state_eq example_event_def)
  have d: "fst (observe_many example_db example_event
          [102, 1021 / 10, 1022 / 10, 1023 / 10, 1024 / 10] example_banned_state)
     = [None, None, None, None, None]"
    by (simp add: c)
  have e: "fst (observe_many example_db_changed example_event
          [102, 1021 / 10, 1022 / 10, 1023 / 10, 1024 / 10] example_banned_state)
     = [None, None, None, None, Some 1]"
    by (subst observe_five [OF g])
       (simp_all add: example_changed_facts example_banned_state_eq example_event_def
          spamming_interval_def)
  from a b d e show ?thesis by simp
qed

text \<open>
  C4, amended. The cooldown check compares the time since the last trigger against the
  duration configured for the group at the time of the observation being checked: for a
  sender other than the bot, a configured duration above zero and a non-empty message,
  the observation is skipped without any effect exactly when
  \<open>now - last_banned_time\<close> is below the currently configured duration.
\<close>

theorem cooldown_uses_current_duration:
  assumes "sender_id ev \<noteq> self_id ev"
    and "0 < db_get db (group_id ev) ''spamming_ban_time'' 0"
    and "n_messages ev \<noteq> 0"
  shows "spamming_ban db ev now st = (None, st) \<longleftrightarrow>
         now - last_banned_time st (group_id ev) (sender_id ev)
           < real_of_int (db_get db (group_id ev) ''spamming_ban_time'' 0)"
  using assms by (rule spamming_ban_skip_iff)

theorem cooldown_uses_current_duration_witness:
  "sender_id example_event \<noteq> self_id example_event
   \<and> 0 < db_get example_db_changed (group_id example_event) ''spamming_ban_time'' 0
   \<and> n_messages example_event \<noteq> 0
   \<and> spamming_ban example_db_changed example_event 101 example_banned_state
       = (None, example_banned_state)
   \<and> spamming_ban example_db_changed example_event 102 example_banned_state
       \<noteq> (None, example_banned_state)"
proof -
  have h1: "sender_id example_event \<noteq> self_id example_event"
    and h2: "0 < db_get example_db_changed (group_id example_event) ''spamming_ban_time'' 0"
    and h3: "n_messages example_event \<noteq> 0"
    by (simp_all add: example_flood_facts example_changed_facts)
  note T = cooldown_uses_current_duration [OF h1 h2 h3, of _ example_banned_state]
  have a: "spamming_ban example_db_changed example_event 101 example_banned_state
       = (None, example_banned_state)"
    unfolding T by (simp add: example_changed_facts example_banned_state_eq example_event_def)
  have b: "spamming_ban example_db_changed example_event 102 example_banned_state
       \<noteq> (None, example_banned_state)"
    unfolding T by (simp add: example_changed_facts example_banned_state_eq example_event_def)
  from h1 h2 h3 a b show ?thesis by blast
qed

text \<open>
  C10. For every group and integer value, \<open>handle_spamming_ban_time\<close> stores the value
  under the key \<open>word_ban_time\<close> and leaves \<open>spamming_ban_time\<close> as it was: the flood
  detector, which reads \<open>spamming_ban_time\<close>, returns the same result and state after the
  operation as before it, for every event, time and state, while the duration used for
  word bans becomes the new value.
\<close>

theorem spamming_ban_time_stored_as_word_ban_time:
  "fst (handle_spamming_ban_time db gid (Some t)) = db_set db gid ''word_ban_time'' t
   \<and> db_get (fst (handle_spamming_ban_time db gid (Some t))) g ''spamming_ban_time'' d
       = db_get db g ''spamming_ban_time'' d
   \<and> spamming_ban (fst (handle_spamming_ban_time db gid (Some t))) ev now st
       = spamming_ban db ev now st
   \<and> word_ban_time (fst (handle_spamming_ban_time db gid (Some t))) gid = t"
proof -
  have a: "fst (handle_spamming_ban_time db gid (Some t)) = db_set db gid ''word_ban_time'' t"
    by (simp add: handle_spamming_ban_time_def)
  have b: "db_get (db_set db gid ''word_ban_time'' t) g' ''spamming_ban_time'' d'
       = db_get db g' ''spamming_ban_time'' d'" for g' d'
    by (simp add: db_get_def db_set_def)
  have c: "spamming_ban (db_set db gid ''word_ban_time'' t) ev now st = spamming_ban db ev now st"
    by (simp add: spamming_ban_def b)
  have d: "word_ban_time (db_set db gid ''word_ban_time'' t) gid = t"
    by (simp add: word_ban_time_def db_get_def db_set_def)
  show ?thesis by (simp only: a b c d simp_thms)
qed

section \<open>Properties of the vote\<close>

lemma settle_vote_absent:
  "vote_cache st gid = None \<Longrightarrow> settle_vote ext gid st = ([], st)"
  by (simp add: settle_vote_def)

lemma vote_mute_resolution_frees:
  "list_ex is_ban (fst (vote_mute tr gid voter_id agree st)) \<Longrightarrow>
   vote_cache (snd (vote_mute tr gid voter_id agree st)) gid = None"
  by (auto simp: vote_mute_def Let_def split: option.splits if_splits)

text \<open>
  The settlement when the nickname lookup and the unguarded send return: the ban call is
  made exactly when the votes for strictly outnumber the votes against and the \<open>try\<close>
  block gets as far as the call; otherwise the rejection is announced; the slot is freed.
\<close>

lemma settle_vote_when_calls_return:
  assumes "vote_cache st gid = Some r" and "nickname_returns ext" and "send_returns ext"
  shows "settle_vote ext gid st =
     (if disagree_count (votes r) < agree_count (votes r)
      then try_ban (try_block ext) gid (target r) (ban_time r) (TimeUpBanned (target r))
      else [Send (TimeUpRejected (target r))],
      st\<lparr>vote_cache := (vote_cache st)(gid := None)\<rparr>)"
  using assms by (simp add: settle_vote_def)

lemma example_tied_facts:
  "vote_cache example_tied_state ''1000'' = Some example_tied_record"
  "agree_count (votes example_tied_record) = 1"
  "disagree_count (votes example_tied_record) = 1"
  "target example_tied_record = ''2001''"
  by (simp_all add: example_tied_state_def example_tied_record_def agree_count_def
      disagree_count_def)

text \<open>
  C5 fails on the code. The settlement runs for the tied session of group 1000 (one vote
  for, one against) and the \<open>event.send\<close> of the rejection raises: the task ends by the
  exception, the record is still in \<open>vote_cache\<close>, and a command that starts a new vote is
  answered that a vote is already running. With the same votes and a send that returns,
  the slot is freed; and for the session with two votes for and one against the ban is
  called inside the \<open>try\<close> block and the slot is freed.
\<close>

theorem settlement_send_raise_keeps_slot:
  "settle_vote send_raises ''1000'' example_tied_state = ([Raises], example_tied_state)
   \<and> vote_cache (snd (settle_vote send_raises ''1000'' example_tied_state)) ''1000''
       = Some example_tied_record
   \<and> fst (start_vote_mute example_vote_conf 100 ''1000'' [''2002''] (Some 300) 0
            (snd (settle_vote send_raises ''1000'' example_tied_state)))
       = [Send VoteAlreadyActive]
   \<and> fst (settle_vote calls_return ''1000'' example_tied_state) = [Send (TimeUpRejected ''2001'')]
   \<and> vote_cache (snd (settle_vote calls_return ''1000'' example_tied_state)) ''1000'' = None
   \<and> fst (settle_vote send_raises ''1000'' example_majority_state)
       = [SetGroupBan ''1000'' ''2001'' 600, Send (TimeUpBanned ''2001'')]
   \<and> vote_cache (snd (settle_vote send_raises ''1000'' example_majority_state)) ''1000'' = None"
  by (simp add: settle_vote_def send_raises_def calls_return_def example_tied_state_def
      example_tied_record_def example_majority_state_def example_majority_record_def
      example_vote_conf_def start_vote_mute_def agree_count_def disagree_count_def)

text \<open>
  C6. A command that starts a vote on a target in a group whose slot is taken answers
  that a vote is already running and returns the state as it was: the session, with its
  target, votes, ban duration, expiry and threshold, and the pending tasks. (Whatever the
  targets of the command, the state is returned as it was.) A vote cast in a group with
  no session answers that no vote is running and returns the state as it was.
\<close>

theorem vote_slot_errors:
  "(vote_cache st gid = Some r \<longrightarrow>
      start_vote_mute conf now gid (target_id # others) ban_time_arg rnd st
        = ([Send VoteAlreadyActive], st)
    \<and> snd (start_vote_mute conf now gid target_ids ban_time_arg rnd st) = st
    \<and> vote_cache (snd (start_vote_mute conf now gid target_ids ban_time_arg rnd st)) gid = Some r)
   \<and> (vote_cache st gid = None \<longrightarrow>
        vote_mute tr gid voter_id agree st = ([Send NoActiveVote], st))"
  by (simp add: start_vote_mute_def vote_mute_def Let_def split: list.split)

theorem vote_slot_errors_witness:
  "vote_cache example_tied_state ''1000'' = Some example_tied_record
   \<and> start_vote_mute example_vote_conf 30 ''1000'' [''2002''] (Some 300) 0 example_tied_state
        = ([Send VoteAlreadyActive], example_tied_state)
   \<and> vote_cache vote_init ''1000'' = None
   \<and> vote_mute TryOk ''1000'' ''3001'' True vote_init = ([Send NoActiveVote], vote_init)"
proof -
  have h1: "vote_cache example_tied_state ''1000'' = Some example_tied_record"
    by (simp add: example_tied_facts)
  have h2: "vote_cache vote_init ''1000'' = None"
    by (simp add: vote_init_def)
  from vote_slot_errors [of example_tied_state "''1000''" example_tied_record
      example_vote_conf 30 "''2002''" "[]" "Some 300" 0 "[''2002'']" TryOk "''3001''" True] h1
  have a: "start_vote_mute example_vote_conf 30 ''1000'' [''2002''] (Some 300) 0 example_tied_state
        = ([Send VoteAlreadyActive], example_tied_state)"
    by blast
  from vote_slot_errors [of vote_init "''1000''" example_tied_record
      example_vote_conf 30 "''2002''" "[]" "Some 300" 0 "[''2002'']" TryOk "''3001''" True] h2
  have b: "vote_mute TryOk ''1000'' ''3001'' True vote_init = ([Send NoActiveVote], vote_init)"
    by blast
  from h1 a h2 b show ?thesis by blast
qed

text \<open>
  C1 fails on the code. In the example history the first vote of group 1000 is resolved
  early; a second vote, on user 2002, is started at time 20 and expires at 80. The
  settlement task of the first vote, whose sleep ends at 60, finds the second vote's
  record under the group id, settles it by majority (one vote for, none against) and mutes
  user 2002; the vote cast afterwards finds no session, and the second vote's own
  task finds nothing to settle. Every external call of the history returns.
\<close>

theorem stale_settlement_resolves_later_vote:
  "fst (vote_run example_vote_conf calls_return example_vote_events vote_init)
     = [[Send (VoteStarted ''2001'' 600 60)],
        [Send (VoteProgress ''2001'' 1 0 2)],
        [SetGroupBan ''1000'' ''2001'' 600, Send (VotePassed ''2001'')],
        [Send (VoteStarted ''2002'' 300 60)],
        [Send (VoteProgress ''2002'' 1 0 2)],
        [SetGroupBan ''1000'' ''2002'' 300, Send (TimeUpBanned ''2002'')],
        [Send NoActiveVote],
        []]
   \<and> pending (snd (vote_run example_vote_conf calls_return (take 5 example_vote_events) vote_init))
       = [(''1000'', 60), (''1000'', 80)]
   \<and> map_option expire
        (vote_cache (snd (vote_run example_vote_conf calls_return (take 5 example_vote_events)
           vote_init)) ''1000'') = Some 80
   \<and> map_option target
        (vote_cache (snd (vote_run example_vote_conf calls_return (take 5 example_vote_events)
           vote_init)) ''1000'') = Some ''2002''"
  by (simp add: example_vote_events_def example_vote_conf_def vote_init_def start_vote_mute_def
      vote_mute_def timer_fires_def settle_vote_def calls_return_def agree_count_def
      disagree_count_def Let_def)

section \<open>Properties of the join policy\<close>

lemma getters_fail_update [simp]:
  "get_block_ids (st\<lparr>fail := f\<rparr>) gid = get_block_ids st gid"
  "get_max_time (st\<lparr>fail := f\<rparr>) gid = get_max_time st gid"
  "get_min_level (st\<lparr>fail := f\<rparr>) gid = get_min_level st gid"
  "get_accept_keywords (st\<lparr>fail := f\<rparr>) gid = get_accept_keywords st gid"
  "get_reject_keywords (st\<lparr>fail := f\<rparr>) gid = get_reject_keywords st gid"
  by (simp_all add: get_block_ids_def get_max_time_def get_min_level_def
      get_accept_keywords_def get_reject_keywords_def)

lemma conditions_fail_update [simp]:
  "level_ok (st\<lparr>fail := f\<rparr>) gid l = level_ok st gid l"
  "unmatched (st\<lparr>fail := f\<rparr>) gid c = unmatched st gid c"
  by (simp_all add: level_ok_def unmatched_def hits_reject_def hits_accept_def)

lemma fail_count_update [simp]:
  "fail_count (st\<lparr>fail := (fail st)(k \<mapsto> n)\<rparr>) k = n"
  by (simp add: fail_count_def)

lemma get_block_ids_add:
  "get_block_ids (add_block_id jc gid uid st) gid = get_block_ids st gid @ [uid]"
  by (simp add: add_block_id_def set_block_ids_def ensure_group_def get_block_ids_def
      default_cfg_def Let_def split: option.split)

lemma should_approve_unmatched:
  assumes "uid \<notin> set (get_block_ids st gid)" and "level_ok st gid l" and "unmatched st gid c"
  shows "should_approve jc gid uid c l st = attempts_and_default jc gid uid st"
  using assms by (auto simp: should_approve_def level_ok_def unmatched_def Let_def)

lemma attempts_below_limit:
  assumes "get_max_time st gid = m" and "fail_count st (fail_key gid uid) + 1 < m"
    and "0 < m" and "\<not> no_match_reject jc"
  shows "attempts_and_default jc gid uid st =
     ((None, NoKeywordMatched),
      st\<lparr>fail := (fail st)(fail_key gid uid \<mapsto> fail_count st (fail_key gid uid) + 1)\<rparr>)"
  using assms by (simp add: attempts_and_default_def Let_def)

lemma attempts_at_limit:
  assumes "get_max_time st gid = m" and "m \<le> fail_count st (fail_key gid uid) + 1"
    and "0 < m"
  shows "attempts_and_default jc gid uid st =
     ((Some False, AttemptsExhausted m),
      add_block_id jc gid uid
        (st\<lparr>fail := (fail st)(fail_key gid uid \<mapsto> fail_count st (fail_key gid uid) + 1)\<rparr>))"
  using assms by (simp add: attempts_and_default_def Let_def)

text \<open>
  C3. With three attempts allowed for the group, automatic rejection of unmatched
  requests off, and a user who is not on the blacklist, has no failed attempt recorded,
  passes the level gate and whose comments hit no reject and no accept keyword: three
  consecutive calls of \<open>should_approve\<close> answer manual review, manual review and rejection
  for too many attempts, and after the third call the user is on the group's blacklist.
\<close>

theorem three_attempts_manual_manual_reject:
  assumes max3: "get_max_time st gid = 3"
    and manual: "\<not> no_match_reject jc"
    and not_blocked: "uid \<notin> set (get_block_ids st gid)"
    and fresh: "fail_count st (fail_key gid uid) = 0"
    and lv: "level_ok st gid l1" "level_ok st gid l2" "level_ok st gid l3"
    and cm: "unmatched st gid c1" "unmatched st gid c2" "unmatched st gid c3"
  shows "fst (should_approve jc gid uid c1 l1 st) = (None, NoKeywordMatched)
    \<and> fst (should_approve jc gid uid c2 l2 (snd (should_approve jc gid uid c1 l1 st)))
        = (None, NoKeywordMatched)
    \<and> fst (should_approve jc gid uid c3 l3
        (snd (should_approve jc gid uid c2 l2 (snd (should_approve jc gid uid c1 l1 st)))))
        = (Some False, AttemptsExhausted 3)
    \<and> uid \<in> set (get_block_ids (snd (should_approve jc gid uid c3 l3
        (snd (should_approve jc gid uid c2 l2 (snd (should_approve jc gid uid c1 l1 st)))))) gid)"
proof -
  let ?k = "fail_key gid uid"
  define s1 where "s1 = st\<lparr>fail := (fail st)(?k \<mapsto> 1)\<rparr>"
  define s2 where "s2 = s1\<lparr>fail := (fail s1)(?k \<mapsto> 2)\<rparr>"
  define s2' where "s2' = s2\<lparr>fail := (fail s2)(?k \<mapsto> 3)\<rparr>"
  have r1: "should_approve jc gid uid c1 l1 st = ((None, NoKeywordMatched), s1)"
    using should_approve_unmatched [of uid st gid l1 c1 jc]
      attempts_below_limit [of st gid 3 uid jc] not_blocked lv(1) cm(1) max3 manual fresh
    by (simp add: s1_def)
  have f1: "fail_count s1 ?k = 1" by (simp add: s1_def)
  have r2: "should_approve jc gid uid c2 l2 s1 = ((None, NoKeywordMatched), s2)"
    using should_approve_unmatched [of uid s1 gid l2 c2 jc]
      attempts_below_limit [of s1 gid 3 uid jc] not_blocked lv(2) cm(2) max3 manual f1
    by (simp add: s1_def s2_def)
  have f2: "fail_count s2 ?k = 2" by (simp add: s2_def)
  have r3: "should_approve jc gid uid c3 l3 s2
      = ((Some False, AttemptsExhausted 3), add_block_id jc gid uid s2')"
    using should_approve_unmatched [of uid s2 gid l3 c3 jc]
      attempts_at_limit [of s2 gid 3 uid jc] not_blocked lv(3) cm(3) max3 f2
    by (simp add: s1_def s2_def s2'_def)
  show ?thesis
    by (simp add: r1 r2 r3 get_block_ids_add)
qed

lemma example_join_facts:
  "get_max_time example_fresh_join_state ''1000'' = 3"
  "get_min_level example_fresh_join_state ''1000'' = 0"
  "get_block_ids example_fresh_join_state ''1000'' = [''666'']"
  "get_accept_keywords example_fresh_join_state ''1000'' = [''Python'']"
  "get_reject_keywords example_fresh_join_state ''1000'' = [''spam'']"
  "fail_count example_fresh_join_state (fail_key ''1000'' ''42'') = 0"
  "\<not> no_match_reject example_join_conf"
  by (simp_all add: example_fresh_join_state_def example_join_state_def example_join_conf_def
      get_max_time_def get_min_level_def get_block_ids_def get_accept_keywords_def
      get_reject_keywords_def fail_count_def)

lemma example_unmatched:
  "unmatched example_fresh_join_state ''1000'' (Some ''let me in'')"
  "unmatched example_fresh_join_state ''1000'' None"
  "unmatched example_fresh_join_state ''1000'' (Some [])"
  by (simp_all add: unmatched_def comment_present_def hits_reject_def hits_accept_def
      example_join_facts lower_def lower_char_def startswith_def)

lemma example_level_ok: "level_ok example_fresh_join_state ''1000'' l"
  by (simp add: level_ok_def example_join_facts)

theorem three_attempts_manual_manual_reject_witness:
  "get_max_time example_fresh_join_state ''1000'' = 3
   \<and> \<not> no_match_reject example_join_conf
   \<and> ''42'' \<notin> set (get_block_ids example_fresh_join_state ''1000'')
   \<and> fail_count example_fresh_join_state (fail_key ''1000'' ''42'') = 0
   \<and> fst (should_approve example_join_conf ''1000'' ''42'' (Some ''let me in'') None
            example_fresh_join_state) = (None, NoKeywordMatched)
   \<and> fst (should_approve example_join_conf ''1000'' ''42'' None (Some 5)
        (snd (should_approve example_join_conf ''1000'' ''42'' (Some ''let me in'') None
            example_fresh_join_state))) = (None, NoKeywordMatched)
   \<and> fst (should_approve example_join_conf ''1000'' ''42'' (Some []) None
        (snd (should_approve example_join_conf ''1000'' ''42'' None (Some 5)
        (snd (should_approve example_join_conf ''1000'' ''42'' (Some ''let me in'') None
            example_fresh_join_state))))) = (Some False, AttemptsExhausted 3)
   \<and> ''42'' \<in> set (get_block_ids (snd (should_approve example_join_conf ''1000'' ''42'' (Some []) None
        (snd (should_approve example_join_conf ''1000'' ''42'' None (Some 5)
        (snd (should_approve example_join_conf ''1000'' ''42'' (Some ''let me in'') None
            example_fresh_join_state)))))) ''1000'')"
proof -
  have h1: "get_max_time example_fresh_join_state ''1000'' = 3"
    and h2: "\<not> no_match_reject example_join_conf"
    and h3: "''42'' \<notin> set (get_block_ids example_fresh_join_state ''1000'')"
    and h4: "fail_count example_fresh_join_state (fail_key ''1000'' ''42'') = 0"
    by (simp_all add: example_join_facts)
  note T = three_attempts_manual_manual_reject [OF h1 h2 h3 h4
      example_level_ok [of None] example_level_ok [of "Some 5"] example_level_ok [of None]
      example_unmatched(1) example_unmatched(2) example_unmatched(3)]
  from h1 h2 h3 h4 T show ?thesis by blast
qed

text \<open>
  C7. For every group, user, comment and level: when the user is on the group's
  blacklist, \<open>should_approve\<close> rejects with the blacklist reason, whatever the comment and
  the level, and returns the state as it was (blacklist and failure counters included);
  the decision step of \<open>event_monitoring\<close> does the same.
\<close>

theorem blacklisted_always_rejected:
  assumes "uid \<in> set (get_block_ids st gid)"
  shows "should_approve jc gid uid comment level st = ((Some False, Blacklisted), st)
    \<and> decide_request jc gid uid comment level st = ((Some False, Blacklisted), st)"
  using assms by (simp add: should_approve_def decide_request_def)

theorem blacklisted_always_rejected_witness:
  "''666'' \<in> set (get_block_ids example_join_state ''1000'')
   \<and> should_approve example_join_conf ''1000'' ''666'' (Some ''I love Python'') (Some 100)
        example_join_state = ((Some False, Blacklisted), example_join_state)
   \<and> decide_request example_join_conf ''1000'' ''666'' (Some ''I love Python'') (Some 100)
        example_join_state = ((Some False, Blacklisted), example_join_state)"
proof -
  have h: "''666'' \<in> set (get_block_ids example_join_state ''1000'')"
    by (simp add: example_join_state_def get_block_ids_def)
  from h blacklisted_always_rejected [OF h] show ?thesis by blast
qed


lemma should_approve_not_present:
  assumes "\<not> comment_present comment"
  shows "fst (fst (should_approve jc gid uid comment level st)) \<noteq> Some True"
  using assms
  by (simp add: should_approve_def attempts_and_default_def Let_def)




end
